theory Spec2Isabelle
  imports Main "HOL-Library.Word"
begin

section \<open>The worker of aio-run-in-process: \<^verbatim>\<open>_child.py\<close>\<close>

text \<open>
  The child process runs one coroutine function, reports its lifecycle to the parent over
  a byte stream and exits. This theory embeds \<^verbatim>\<open>_child.py\<close> function by function.
  What the file imports from elsewhere (the \<^verbatim>\<open>State\<close> enumeration, the pickling helpers,
  \<^verbatim>\<open>asyncio\<close>) is either a datatype written from its use in the file or an argument of
  the embedded function.
\<close>

subsection \<open>Data\<close>

text \<open>
  Modelled from the spec: the enumeration \<^verbatim>\<open>State\<close> of \<^verbatim>\<open>state.py\<close>, which is imported
  by \<^verbatim>\<open>_child.py\<close> and lists, in this order, the eight lifecycle states. Its numeric
  values (the one-byte tags on the wire) are not known here, so a message keeps the
  \<open>State\<close> itself where the stream holds its tag byte.
\<close>

datatype State =
    INITIALIZING | INITIALIZED | WAIT_EXEC_DATA | BOOTING
  | STARTED | EXECUTING | STOPPING | FINISHED

type_synonym byte = "8 word"
type_synonym bytes = "byte list"

text \<open>
  \<open>to_parent\<close> is the sequence of \<^verbatim>\<open>write\<close> calls made on the stream: each one writes
  the tag of one state followed by that state's payload (empty but for \<open>INITIALIZED\<close> and
  \<open>FINISHED\<close>). Every write is flushed at once and is taken to succeed.
\<close>

type_synonym message = "State \<times> bytes"

text \<open>
  The exceptions the file tells apart. \<open>SystemExit\<close> carries its \<^verbatim>\<open>args\<close> (integers
  here: exit codes and signal numbers); \<open>Exception\<close> stands for every other exception
  and carries a description.
\<close>

datatype exn =
    KeyboardInterrupt
  | SystemExit "int list"
  | CancelledError
  | Exception string

text \<open>
  The two kinds of object the worker pickles: the value the task returned (the spec's
  \<open>Success\<close>) and a \<^verbatim>\<open>RemoteException\<close> wrapping the exception that was raised (the
  spec's \<open>Failure\<close>; the traceback it also holds is left out).
\<close>

datatype 'v obj = Result 'v | RemoteException exn

text \<open>
  A coroutine, seen from \<^verbatim>\<open>_handle_coro\<close>, that is through \<^verbatim>\<open>coro_task\<close>, the task
  that \<^verbatim>\<open>asyncio.shield\<close> wraps around it (line 121): \<open>completion\<close> is what awaiting
  \<^verbatim>\<open>coro_task\<close> gives once that task is done (a value or a raised exception), and
  \<open>throw\<close> is what \<^verbatim>\<open>coro.throw(KeyboardInterrupt)\<close> does at its current suspension point:
  the coroutine swallows the exception and suspends again (\<open>Yields\<close>), returns a value
  (\<open>StopIteration\<close>) or lets an exception out (\<open>Raises\<close>). \<open>Yields\<close> carries the coroutine
  as \<^verbatim>\<open>coro_task\<close> gives it from then on. The throw of line 141 goes past that task,
  which still waits on what the coroutine had yielded before the throw, so the completion
  after a swallowed throw is not the coroutine's own result in general: \<open>as_task\<close> below
  says what it is.
\<close>

datatype ('v, 'c) thrown = Yields 'c | StopIteration 'v | Raises exn

codatatype 'v coroutine =
  Coroutine (completion: "exn + 'v") (throw: "('v, 'v coroutine) thrown")

text \<open>An \<^verbatim>\<open>asyncio\<close> future or task: pending, or done with a result or an exception.\<close>

datatype 'a future = Pending | Done "exn + 'a"

fun fut_done :: "'a future \<Rightarrow> bool" where
  "fut_done Pending = False"
| "fut_done (Done r) = True"

fun fut_result :: "'a future \<Rightarrow> exn + 'a" where
  "fut_result Pending = Inl (Exception ''InvalidStateError'')"
| "fut_result (Done r) = r"

text \<open>
  One return of \<^verbatim>\<open>asyncio.wait((coro_task, got_SIGINT.wait()), FIRST_COMPLETED)\<close> in
  \<^verbatim>\<open>_handle_coro\<close>: what the two tests that follow it see. The list of wakes is the
  run's schedule; when it is used up the wait never returns.
\<close>

datatype wake = Wake (coro_task_done: bool) (got_SIGINT_is_set: bool)

text \<open>What \<^verbatim>\<open>_handle_coro\<close> does to the flag and to the coroutine, in order.\<close>

datatype effect = Clear_got_SIGINT | Throw_KeyboardInterrupt

datatype process_end =
    Exit int       \<comment> \<open>\<^verbatim>\<open>sys.exit(code)\<close> was reached\<close>
  | Uncaught exn   \<comment> \<open>an exception left \<^verbatim>\<open>_run_process\<close>\<close>

record worker =
  written :: "message list"
  ending :: process_end

subsection \<open>Writing states\<close>

definition update_state :: "message list \<Rightarrow> State \<Rightarrow> message list" where
  "update_state to_parent state = to_parent @ [(state, [])]"

definition to_bytes_big :: "nat \<Rightarrow> 'a::len word \<Rightarrow> bytes" where
  "to_bytes_big n x = map (\<lambda>i. ucast (drop_bit (8 * i) x)) (rev [0..<n])"

definition update_state_initialized :: "message list \<Rightarrow> 32 word \<Rightarrow> message list" where
  "update_state_initialized to_parent getpid =
     to_parent @ [(INITIALIZED, to_bytes_big 4 getpid)]"

definition update_state_finished :: "message list \<Rightarrow> bytes \<Rightarrow> message list" where
  "update_state_finished to_parent finished_payload =
     to_parent @ [(FINISHED, finished_payload)]"

subsection \<open>\<^verbatim>\<open>_do_task_cleanup\<close>\<close>

text \<open>
  Each task is cancelled unless it is done, then awaited; only \<open>CancelledError\<close> is
  swallowed. Awaiting a task that was pending and has just been cancelled raises
  \<open>CancelledError\<close>; awaiting a done task gives its result or raises its exception.
\<close>

fun do_task_cleanup :: "'a future list \<Rightarrow> exn + unit" where
  "do_task_cleanup [] = Inr ()"
| "do_task_cleanup (task # tasks) =
     (case (if \<not> fut_done task then Inl CancelledError else fut_result task) of
        Inl CancelledError \<Rightarrow> do_task_cleanup tasks
      | Inl e \<Rightarrow> Inl e
      | Inr _ \<Rightarrow> do_task_cleanup tasks)"

subsection \<open>\<^verbatim>\<open>_handle_coro\<close>\<close>

text \<open>
  The loop of \<^verbatim>\<open>_handle_coro\<close>, one iteration per wake. \<open>pending\<close> holds the futures
  the wait returned as not done: the flag's waiter when the coroutine's task finished
  first, the coroutine's task when the flag was set first. \<open>effects\<close> records, oldest
  first, what has been done to the flag and the coroutine so far. The result is \<open>None\<close>
  when the schedule ends with the loop still waiting.
\<close>

fun handle_coro_loop ::
  "'v coroutine \<Rightarrow> effect list \<Rightarrow> wake list \<Rightarrow> ((exn + 'v) \<times> effect list) option" where
  "handle_coro_loop coro effects [] = None"
| "handle_coro_loop coro effects (w # wakes) =
     (if coro_task_done w then
        (case do_task_cleanup (if got_SIGINT_is_set w then [] else [Pending :: unit future]) of
           Inl e \<Rightarrow> Some (Inl e, effects)
         | Inr _ \<Rightarrow> Some (completion coro, effects))
      else if got_SIGINT_is_set w then
        (let effects = effects @ [Clear_got_SIGINT, Throw_KeyboardInterrupt] in
         case throw coro of
           Yields coro' \<Rightarrow> handle_coro_loop coro' effects wakes
         | StopIteration v \<Rightarrow>
             (case do_task_cleanup [Pending :: unit future] of
                Inl e \<Rightarrow> Some (Inl e, effects)
              | Inr _ \<Rightarrow> Some (Inr v, effects))
         | Raises e \<Rightarrow> Some (Inl e, effects))
      else Some (Inl (Exception ''Code path should not be reachable''), effects))"

definition handle_coro ::
  "'v coroutine \<Rightarrow> wake list \<Rightarrow> ((exn + 'v) \<times> effect list) option" where
  "handle_coro coro wakes = handle_coro_loop coro [] wakes"

subsection \<open>\<^verbatim>\<open>_do_async_fn\<close>\<close>

text \<open>
  \<open>wakes\<close> is the schedule of the inner loop up to the moment \<^verbatim>\<open>_do_async_fn\<close> is
  resumed from its own wait, and \<open>system_exit_signum\<close> is the state of the future that
  the \<open>SIGTERM\<close> handler sets, at that moment. The wait returns only when one of the two
  futures is done. The result is the value returned or the exception raised, with the
  stream as it was left.
\<close>

definition do_async_fn ::
  "('a list \<Rightarrow> exn + 'v coroutine) \<Rightarrow> 'a list \<Rightarrow> message list \<Rightarrow> wake list \<Rightarrow> int future
     \<Rightarrow> ((exn + 'v) \<times> message list) option" where
  "do_async_fn async_fn args to_parent wakes system_exit_signum =
     (let to_parent = update_state to_parent STARTED;
          to_parent = update_state to_parent EXECUTING
      in case async_fn args of
           Inl e \<Rightarrow> Some (Inl e, to_parent)
         | Inr async_fn_coro \<Rightarrow>
             (let async_fn_task =
                    (case handle_coro async_fn_coro wakes of
                       None \<Rightarrow> Pending
                     | Some (r, _) \<Rightarrow> Done r)
              in if \<not> fut_done async_fn_task \<and> \<not> fut_done system_exit_signum then None
                 else if fut_done system_exit_signum then
                   (case do_task_cleanup [async_fn_task] of
                      Inl e \<Rightarrow> Some (Inl e, to_parent)
                    | Inr _ \<Rightarrow>
                        (case fut_result system_exit_signum of
                           Inl e \<Rightarrow> Some (Inl e, to_parent)
                         | Inr signum \<Rightarrow> Some (Inl (SystemExit [signum]), to_parent)))
                 else if fut_done async_fn_task then
                   Some (fut_result async_fn_task, to_parent)
                 else Some (Inl (Exception ''unreachable''), to_parent)))"

subsection \<open>\<^verbatim>\<open>_run_process\<close>\<close>

text \<open>
  The three handlers of the outer \<^verbatim>\<open>try\<close>: the exit code each one binds. Indexing the
  empty \<^verbatim>\<open>args\<close> of a \<open>SystemExit\<close> raises, and \<open>code\<close> stays unbound.
\<close>

fun except_code :: "exn \<Rightarrow> int option" where
  "except_code KeyboardInterrupt = Some 2"
| "except_code (SystemExit args) = (case args of [] \<Rightarrow> None | a # _ \<Rightarrow> Some a)"
| "except_code e = Some 1"

text \<open>
  The outer \<^verbatim>\<open>finally\<close>. Reading a local that was never bound raises
  \<^verbatim>\<open>UnboundLocalError\<close>, which leaves \<^verbatim>\<open>_run_process\<close>.
\<close>

definition finally_finished ::
  "message list \<Rightarrow> bytes option \<Rightarrow> int option \<Rightarrow> worker" where
  "finally_finished to_parent finished_payload code =
     (case finished_payload of
        None \<Rightarrow> \<lparr>written = to_parent, ending = Uncaught (Exception ''UnboundLocalError'')\<rparr>
      | Some payload \<Rightarrow>
          (let to_parent = update_state_finished to_parent payload
           in case code of
                None \<Rightarrow> \<lparr>written = to_parent, ending = Uncaught (Exception ''UnboundLocalError'')\<rparr>
              | Some c \<Rightarrow> \<lparr>written = to_parent, ending = Exit c\<rparr>))"

text \<open>
  The nested \<^verbatim>\<open>try\<close> statements around \<^verbatim>\<open>loop.run_until_complete\<close>, given what that
  call returned or raised. \<open>pickle_value\<close> may raise: inside the inner handler its
  exception replaces the one being handled, inside the \<^verbatim>\<open>else\<close> clause it leaves
  \<open>finished_payload\<close> and \<open>code\<close> unbound.
\<close>

definition try_run ::
  "('v obj \<Rightarrow> exn + bytes) \<Rightarrow> message list \<Rightarrow> exn + 'v \<Rightarrow> worker" where
  "try_run pickle_value to_parent returned =
     (case returned of
        Inr result \<Rightarrow>
          (let to_parent = update_state to_parent STOPPING
           in case pickle_value (Result result) of
                Inl e \<Rightarrow> finally_finished to_parent None None
              | Inr finished_payload \<Rightarrow> finally_finished to_parent (Some finished_payload) (Some 0))
      | Inl exc_value \<Rightarrow>
          (case pickle_value (RemoteException exc_value) of
             Inl e \<Rightarrow>
               (let to_parent = update_state to_parent STOPPING
                in finally_finished to_parent None (except_code e))
           | Inr finished_payload \<Rightarrow>
               (let to_parent = update_state to_parent STOPPING
                in finally_finished to_parent (Some finished_payload) (except_code exc_value))))"

text \<open>
  \<^verbatim>\<open>_run_process\<close>. Its arguments are what the file takes from outside:
  \<open>pickle_value\<close> and \<open>receive_pickled_value\<close> of \<^verbatim>\<open>_utils.py\<close>, the process id, the
  bytes the parent wrote, and the schedule of the event loop. The descriptor is read
  before the \<^verbatim>\<open>try\<close> starts, so an exception raised there leaves the function as it is.
  The result is \<open>None\<close> when \<^verbatim>\<open>run_until_complete\<close> never returns.
\<close>

definition run_process ::
  "('v obj \<Rightarrow> exn + bytes)
     \<Rightarrow> (bytes \<Rightarrow> exn + (('a list \<Rightarrow> exn + 'v coroutine) \<times> 'a list))
     \<Rightarrow> 32 word \<Rightarrow> bytes \<Rightarrow> wake list \<Rightarrow> int future \<Rightarrow> worker option" where
  "run_process pickle_value receive_pickled_value getpid from_parent wakes system_exit_signum =
     (let to_parent = update_state_initialized [] getpid;
          to_parent = update_state to_parent WAIT_EXEC_DATA
      in case receive_pickled_value from_parent of
           Inl e \<Rightarrow> Some \<lparr>written = to_parent, ending = Uncaught e\<rparr>
         | Inr (async_fn, args) \<Rightarrow>
             (let to_parent = update_state to_parent BOOTING
              in case do_async_fn async_fn args to_parent wakes system_exit_signum of
                   None \<Rightarrow> None
                 | Some (returned, to_parent) \<Rightarrow> Some (try_run pickle_value to_parent returned)))"

subsection \<open>Coroutines and the task that drives them\<close>

text \<open>
  A coroutine by itself, before a task is wrapped around it: \<open>awaits\<close> is what it is
  suspended on, a bare yield (as in \<^verbatim>\<open>await asyncio.sleep(0)\<close>) or a future that is still
  pending; \<open>returns\<close> is its own result, what it returns or raises when it is resumed
  as what it awaits asks for and run to its end; \<open>interrupted\<close> is what a
  \<open>KeyboardInterrupt\<close> thrown in at this point does.
\<close>

datatype awaited = Bare_yield | Pending_future

codatatype 'v body =
  Body (awaits: awaited) (returns: "exn + 'v") (interrupted: "('v, 'v body) thrown")

text \<open>
  The coroutine as its task gives it. \<open>in_step\<close> says that the task waits on what the
  coroutine is suspended on, which holds until \<^verbatim>\<open>_handle_coro\<close> throws into the coroutine
  behind the task's back: the object the coroutine yields after swallowing the throw is
  the return value of \<^verbatim>\<open>coro.throw\<close>, which line 141 drops, and the task goes on waiting on
  the future yielded before. When that future wakes the task, the task resumes the
  coroutine where it now stands. At a bare yield the coroutine just goes on; inside the
  \<^verbatim>\<open>await\<close> of a future that is not done, the future raises
  \<^verbatim>\<open>RuntimeError("await wasn't used with future")\<close> in the coroutine, which is taken to
  leave it. (A coroutine suspended in \<^verbatim>\<open>asyncio.sleep\<close> cancels its timer when the exception
  passes; its task is then never woken, and the schedule has no wake with the task done.)
\<close>

primcorec as_task :: "bool \<Rightarrow> 'v body \<Rightarrow> 'v coroutine" where
  "completion (as_task in_step b) =
     (if in_step \<or> awaits b = Bare_yield then returns b
      else Inl (Exception ''RuntimeError''))"
| "throw (as_task in_step b) = map_thrown id (as_task False) (interrupted b)"

subsection \<open>Tasks that swallow interrupts\<close>

text \<open>
  \<open>ignores k coro\<close>: each of the next \<open>k\<close> \<^verbatim>\<open>KeyboardInterrupt\<close>s thrown into the
  coroutine is swallowed and the coroutine suspends again. \<open>resumed k coro\<close> is the
  coroutine as it stands after these \<open>k\<close> throws.
\<close>

fun ignores :: "nat \<Rightarrow> 'v coroutine \<Rightarrow> bool" where
  "ignores 0 coro = True"
| "ignores (Suc k) coro =
     (case throw coro of Yields coro' \<Rightarrow> ignores k coro' | _ \<Rightarrow> False)"

fun resumed :: "nat \<Rightarrow> 'v coroutine \<Rightarrow> 'v coroutine" where
  "resumed 0 coro = coro"
| "resumed (Suc k) coro =
     (case throw coro of Yields coro' \<Rightarrow> resumed k coro' | _ \<Rightarrow> coro)"

subsection \<open>Sample tasks and a sample codec\<close>

text \<open>
  Three coroutines: \<open>stubborn r\<close> swallows every interrupt and completes with \<open>r\<close>
  all the same (its suspension points are bare yields);
  \<open>returning r v\<close> returns \<open>v\<close> when interrupted; \<open>plain r\<close> does not handle the
  interrupt, which comes back out of it.
\<close>

primcorec stubborn :: "exn + 'v \<Rightarrow> 'v coroutine" where
  "completion (stubborn r) = r"
| "throw (stubborn r) = Yields (stubborn r)"

primcorec returning :: "exn + 'v \<Rightarrow> 'v \<Rightarrow> 'v coroutine" where
  "completion (returning r v) = r"
| "throw (returning r v) = StopIteration v"

primcorec plain :: "exn + 'v \<Rightarrow> 'v coroutine" where
  "completion (plain r) = r"
| "throw (plain r) = Raises KeyboardInterrupt"

text \<open>
  A coroutine that awaits futures, swallows every interrupt, awaits again and returns
  \<open>r\<close> in the end, as in
  \<^verbatim>\<open>while True: try: await fut; return r; except KeyboardInterrupt: fut = new_future()\<close>.
\<close>

primcorec patient :: "exn + 'v \<Rightarrow> 'v body" where
  "awaits (patient r) = Pending_future"
| "returns (patient r) = r"
| "interrupted (patient r) = Yields (patient r)"

text \<open>
  A pickler for results that are natural numbers: one tag byte, then the number in one
  byte. A number that does not fit cannot be pickled; every \<open>RemoteException\<close> can.
\<close>

definition example_pickle_value :: "nat obj \<Rightarrow> exn + bytes" where
  "example_pickle_value x =
     (case x of
        Result n \<Rightarrow> if n < 256 then Inr [0, of_nat n] else Inl (Exception ''PicklingError'')
      | RemoteException e \<Rightarrow> Inr [1])"

definition example_unpickle :: "bytes \<Rightarrow> nat obj" where
  "example_unpickle payload =
     (case payload of
        [tag, b] \<Rightarrow> if tag = 0 then Result (unat b) else RemoteException (Exception [])
      | _ \<Rightarrow> RemoteException (Exception []))"

text \<open>
  Descriptors: the first byte from the parent selects the function, the other bytes are
  its arguments. The functions return the sum of their arguments, raise, swallow
  interrupts, or return the sum when interrupted.
\<close>

definition example_async_fn :: "byte \<Rightarrow> nat list \<Rightarrow> exn + nat coroutine" where
  "example_async_fn kind args =
     (if kind = 0 then Inr (plain (Inr (sum_list args)))
      else if kind = 1 then Inr (plain (Inl (Exception ''boom'')))
      else if kind = 2 then Inr (stubborn (Inr (sum_list args)))
      else if kind = 3 then Inr (returning (Inr 0) (sum_list args))
      else Inl (Exception ''TypeError''))"

definition example_receive_pickled_value ::
  "bytes \<Rightarrow> exn + ((nat list \<Rightarrow> exn + nat coroutine) \<times> nat list)" where
  "example_receive_pickled_value from_parent =
     (case from_parent of
        [] \<Rightarrow> Inl (Exception ''EOFError'')
      | kind # bs \<Rightarrow> Inr (example_async_fn kind, map unat bs))"

section \<open>Properties\<close>

subsection \<open>Auxiliary facts\<close>

lemmas written_defs =
  update_state_def update_state_initialized_def update_state_finished_def

lemmas run_defs =
  run_process_def do_async_fn_def try_run_def finally_finished_def written_defs

lemmas example_defs =
  example_pickle_value_def example_receive_pickled_value_def example_async_fn_def

lemma do_task_cleanup_Pending: "do_task_cleanup [Pending] = Inr ()"
  by simp

lemma handle_coro_loop_done:
  "handle_coro_loop coro effects (Wake True sigint # wakes) = Some (completion coro, effects)"
  by simp

lemma handle_coro_loop_SIGINT:
  "handle_coro_loop coro effects (Wake False True # wakes) =
     (case throw coro of
        Yields coro' \<Rightarrow>
          handle_coro_loop coro' (effects @ [Clear_got_SIGINT, Throw_KeyboardInterrupt]) wakes
      | StopIteration v \<Rightarrow> Some (Inr v, effects @ [Clear_got_SIGINT, Throw_KeyboardInterrupt])
      | Raises e \<Rightarrow> Some (Inl e, effects @ [Clear_got_SIGINT, Throw_KeyboardInterrupt]))"
  by (simp split: thrown.split)

lemma handle_coro_loop_ignored:
  "ignores k coro \<Longrightarrow>
   handle_coro_loop coro effects (replicate k (Wake False True) @ wakes) =
     handle_coro_loop (resumed k coro)
       (effects @ concat (replicate k [Clear_got_SIGINT, Throw_KeyboardInterrupt])) wakes"
proof (induction k arbitrary: coro effects)
  case 0
  then show ?case by simp
next
  case (Suc k)
  from Suc.prems obtain coro' where y: "throw coro = Yields coro'" and i: "ignores k coro'"
    by (auto split: thrown.splits)
  have "handle_coro_loop coro effects (replicate (Suc k) (Wake False True) @ wakes) =
        handle_coro_loop coro' (effects @ [Clear_got_SIGINT, Throw_KeyboardInterrupt])
          (replicate k (Wake False True) @ wakes)"
    using y by (simp del: handle_coro_loop.simps add: handle_coro_loop_SIGINT)
  also have "\<dots> = handle_coro_loop (resumed k coro')
        ((effects @ [Clear_got_SIGINT, Throw_KeyboardInterrupt]) @
           concat (replicate k [Clear_got_SIGINT, Throw_KeyboardInterrupt])) wakes"
    by (rule Suc.IH [OF i])
  finally show ?case using y by simp
qed

lemma ignores_stubborn: "ignores k (stubborn r)"
  by (induction k) simp_all

lemma resumed_stubborn: "resumed k (stubborn r) = stubborn r"
  by (induction k) simp_all

text \<open>
  For a task whose suspension points are bare yields, any number of swallowed interrupts
  leaves the outcome as it is.
\<close>

lemma stubborn_keeps_result:
  "handle_coro (stubborn r) (replicate k (Wake False True) @ Wake True sigint # wakes) =
     Some (r, concat (replicate k [Clear_got_SIGINT, Throw_KeyboardInterrupt]))"
  unfolding handle_coro_def
  by (simp only: handle_coro_loop_ignored [OF ignores_stubborn] handle_coro_loop_done
        append_Nil resumed_stubborn stubborn.simps)

lemma handle_coro_Nil: "handle_coro coro [] = None"
  by (simp add: handle_coro_def)

lemma handle_coro_done:
  "handle_coro coro (Wake True sigint # wakes) = Some (completion coro, [])"
  by (simp add: handle_coro_def)

lemma example_unpickle_pickle:
  "example_pickle_value (Result x) = Inr p \<Longrightarrow> example_unpickle p = Result x"
  by (auto simp: example_pickle_value_def example_unpickle_def unat_of_nat split: if_splits)

text \<open>\<^verbatim>\<open>_do_async_fn\<close> writes \<open>STARTED\<close> and \<open>EXECUTING\<close> whatever happens next.\<close>

lemma do_async_fn_written:
  "do_async_fn async_fn args to_parent wakes system_exit_signum = Some (returned, to_parent') \<Longrightarrow>
   to_parent' = to_parent @ [(STARTED, []), (EXECUTING, [])]"
  by (auto simp: do_async_fn_def Let_def update_state_def
           split: sum.splits if_splits option.splits)

text \<open>
  When the terminate future is done and the task has returned a value, or is still
  pending, \<^verbatim>\<open>_do_async_fn\<close> raises \<open>SystemExit\<close> with the signal number.
\<close>

lemma do_async_fn_SIGTERM_pending:
  assumes "async_fn args = Inr coro" and "handle_coro coro wakes = None"
  shows "do_async_fn async_fn args to_parent wakes (Done (Inr signum)) =
           Some (Inl (SystemExit [signum]), to_parent @ [(STARTED, []), (EXECUTING, [])])"
  using assms by (simp add: do_async_fn_def update_state_def)

lemma do_async_fn_SIGTERM_returned:
  assumes "async_fn args = Inr coro" and "handle_coro coro wakes = Some (Inr v, effects)"
  shows "do_async_fn async_fn args to_parent wakes (Done (Inr signum)) =
           Some (Inl (SystemExit [signum]), to_parent @ [(STARTED, []), (EXECUTING, [])])"
  using assms by (simp add: do_async_fn_def update_state_def)

text \<open>
  When the task has failed with an exception other than \<open>CancelledError\<close>, the cleanup
  of the terminate branch raises that exception, and \<open>SystemExit\<close> is not raised.
\<close>

lemma do_async_fn_SIGTERM_failed:
  assumes "async_fn args = Inr coro" and "handle_coro coro wakes = Some (Inl e, effects)"
    and "e \<noteq> CancelledError"
  shows "do_async_fn async_fn args to_parent wakes (Done (Inr signum)) =
           Some (Inl e, to_parent @ [(STARTED, []), (EXECUTING, [])])"
  using assms by (cases e) (simp_all add: do_async_fn_def update_state_def)

text \<open>The four ways through the \<^verbatim>\<open>try\<close> statements.\<close>

lemma try_run_returned:
  "pickle_value (Result v) = Inr payload \<Longrightarrow>
   try_run pickle_value to_parent (Inr v) =
     \<lparr>written = to_parent @ [(STOPPING, []), (FINISHED, payload)], ending = Exit 0\<rparr>"
  by (simp add: try_run_def finally_finished_def written_defs)

lemma try_run_returned_unpicklable:
  "pickle_value (Result v) = Inl e \<Longrightarrow>
   try_run pickle_value to_parent (Inr v) =
     \<lparr>written = to_parent @ [(STOPPING, [])],
      ending = Uncaught (Exception ''UnboundLocalError'')\<rparr>"
  by (simp add: try_run_def finally_finished_def written_defs)

lemma try_run_raised:
  "pickle_value (RemoteException exc_value) = Inr payload \<Longrightarrow>
   try_run pickle_value to_parent (Inl exc_value) =
     \<lparr>written = to_parent @ [(STOPPING, []), (FINISHED, payload)],
      ending = (case except_code exc_value of
                  None \<Rightarrow> Uncaught (Exception ''UnboundLocalError'')
                | Some code \<Rightarrow> Exit code)\<rparr>"
  by (simp add: try_run_def finally_finished_def written_defs split: option.split)

lemma try_run_raised_unpicklable:
  "pickle_value (RemoteException exc_value) = Inl e \<Longrightarrow>
   try_run pickle_value to_parent (Inl exc_value) =
     \<lparr>written = to_parent @ [(STOPPING, [])],
      ending = Uncaught (Exception ''UnboundLocalError'')\<rparr>"
  by (simp add: try_run_def finally_finished_def written_defs)

lemma try_run_written:
  "written (try_run pickle_value to_parent returned) = to_parent @ [(STOPPING, [])] \<or>
   (\<exists>payload. written (try_run pickle_value to_parent returned) =
                 to_parent @ [(STOPPING, []), (FINISHED, payload)])"
proof (cases returned)
  case (Inl exc_value)
  then show ?thesis
    by (cases "pickle_value (RemoteException exc_value)")
       (simp_all add: try_run_raised try_run_raised_unpicklable)
next
  case (Inr v)
  then show ?thesis
    by (cases "pickle_value (Result v)")
       (simp_all add: try_run_returned try_run_returned_unpicklable)
qed

text \<open>Everything a worker that comes to its end can have written.\<close>

lemma run_process_written:
  assumes "run_process pickle_value receive_pickled_value getpid from_parent wakes
             system_exit_signum = Some w"
  shows "(\<exists>e. receive_pickled_value from_parent = Inl e) \<and>
           written w = [(INITIALIZED, to_bytes_big 4 getpid), (WAIT_EXEC_DATA, [])] \<or>
         (\<exists>d. receive_pickled_value from_parent = Inr d) \<and>
           (written w =
              [(INITIALIZED, to_bytes_big 4 getpid), (WAIT_EXEC_DATA, []), (BOOTING, []),
               (STARTED, []), (EXECUTING, []), (STOPPING, [])] \<or>
            (\<exists>payload. written w =
              [(INITIALIZED, to_bytes_big 4 getpid), (WAIT_EXEC_DATA, []), (BOOTING, []),
               (STARTED, []), (EXECUTING, []), (STOPPING, []), (FINISHED, payload)]))"
proof (cases "receive_pickled_value from_parent")
  case (Inl e)
  with assms show ?thesis
    by (auto simp: run_process_def written_defs)
next
  case (Inr d)
  obtain async_fn args where d: "d = (async_fn, args)"
    by (cases d)
  let ?booting = "[(INITIALIZED, to_bytes_big 4 getpid), (WAIT_EXEC_DATA, []), (BOOTING, [])]"
  from assms Inr d obtain returned to_parent
    where ran: "do_async_fn async_fn args ?booting wakes system_exit_signum =
                  Some (returned, to_parent)"
      and w: "w = try_run pickle_value to_parent returned"
    by (auto simp: run_process_def written_defs split: option.splits)
  have "to_parent = ?booting @ [(STARTED, []), (EXECUTING, [])]"
    using ran by (rule do_async_fn_written)
  with w try_run_written [of pickle_value to_parent returned] Inr show ?thesis
    by auto
qed

subsection \<open>The interrupt loop\<close>

text \<open>
  C9. In the interrupt race loop a completed task wins over a soft-interrupt flag that is
  set at the same time: whenever the wait returns with the coroutine's task done, the
  loop ends with the task's own result or failure, and nothing is done to the flag or to
  the coroutine (no \<open>KeyboardInterrupt\<close> is thrown), whether the flag is set or not. This
  holds at every iteration: \<open>coro\<close> and \<open>effects\<close> are the loop's state at that point.
\<close>

theorem completed_task_wins:
  "handle_coro_loop coro effects (Wake True sigint # wakes) = Some (completion coro, effects)"
  by simp

theorem completed_task_wins_witness:
  "handle_coro_loop (plain (Inl (Exception ''boom'') :: exn + nat))
     [Clear_got_SIGINT, Throw_KeyboardInterrupt] [Wake True True] =
   Some (Inl (Exception ''boom''), [Clear_got_SIGINT, Throw_KeyboardInterrupt])"
  using completed_task_wins
    [of "plain (Inl (Exception ''boom'') :: exn + nat)"
        "[Clear_got_SIGINT, Throw_KeyboardInterrupt]" True "[]"]
  by simp

text \<open>
  C6, at the input where the code departs from it. The task awaits a future, swallows
  the interrupt, awaits another future and would return 7. Left alone it gives 7. With
  one soft interrupt delivered, the flag is cleared and \<open>KeyboardInterrupt\<close> is thrown in
  and swallowed, as the docstring of \<^verbatim>\<open>_handle_coro\<close> foresees (the coroutine "may choose
  to ignore the exception and continue executing"); but the task around the coroutine,
  which line 141 went past, later resumes it out of step, and the outcome is a
  \<^verbatim>\<open>RuntimeError\<close>, not 7. (For a task that only yields, the outcome stays:
  \<open>stubborn_keeps_result\<close>.)
\<close>

theorem swallowed_interrupt_changes_outcome:
  "ignores (Suc 0) (as_task True (patient (Inr (7::nat)))) \<and>
   handle_coro (as_task True (patient (Inr (7::nat)))) [Wake True False] = Some (Inr 7, []) \<and>
   handle_coro (as_task True (patient (Inr (7::nat)))) [Wake False True, Wake True False] =
     Some (Inl (Exception ''RuntimeError''), [Clear_got_SIGINT, Throw_KeyboardInterrupt])"
  by (simp add: handle_coro_def)

text \<open>
  C5. A task that returns a value \<open>v\<close> from the interrupt injected at its suspension
  point (after swallowing \<open>k\<close> earlier ones, \<open>k\<close> possibly zero) makes the loop return
  \<open>v\<close> as its result: the value carried by \<open>StopIteration\<close> is the successful outcome,
  not a failure.
\<close>

theorem interrupt_return_is_success:
  assumes "ignores k coro" and "throw (resumed k coro) = StopIteration v"
  shows "handle_coro coro (replicate k (Wake False True) @ Wake False True # wakes) =
           Some (Inr v, concat (replicate k [Clear_got_SIGINT, Throw_KeyboardInterrupt]) @
                          [Clear_got_SIGINT, Throw_KeyboardInterrupt])"
  unfolding handle_coro_def
  using assms(2)
  by (simp only: handle_coro_loop_ignored [OF assms(1)] handle_coro_loop_SIGINT append_Nil)
     simp

theorem interrupt_return_is_success_witness:
  "ignores 0 (returning (Inr 0) (5::nat)) \<and>
   throw (resumed 0 (returning (Inr 0) (5::nat))) = StopIteration 5 \<and>
   handle_coro (returning (Inr 0) (5::nat)) [Wake False True, Wake True False] =
     Some (Inr 5, [Clear_got_SIGINT, Throw_KeyboardInterrupt])"
  using interrupt_return_is_success
    [of 0 "returning (Inr 0) (5::nat)" 5 "[Wake True False]"]
  by simp

subsection \<open>The terminate signal\<close>

text \<open>
  C1, as the code has it. When the terminate signal arrives during \<open>EXECUTING\<close> while
  the task is still pending, and the \<open>RemoteException\<close> wrapping the \<open>SystemExit\<close> can be
  pickled, the worker writes \<open>STOPPING\<close>, then \<open>FINISHED\<close> with that pickled
  \<open>RemoteException\<close>, and exits with the signal number: the forced exit goes through
  the same handlers as any other exception.
\<close>

theorem terminate_writes_finished:
  assumes "receive_pickled_value from_parent = Inr (async_fn, args)"
    and "async_fn args = Inr coro"
    and "handle_coro coro wakes = None"
    and "pickle_value (RemoteException (SystemExit [signum])) = Inr payload"
  shows "run_process pickle_value receive_pickled_value getpid from_parent wakes
           (Done (Inr signum)) =
         Some \<lparr>written = [(INITIALIZED, to_bytes_big 4 getpid), (WAIT_EXEC_DATA, []),
                          (BOOTING, []), (STARTED, []), (EXECUTING, []), (STOPPING, []),
                          (FINISHED, payload)],
               ending = Exit signum\<rparr>"
  using assms by (simp add: run_defs)

theorem terminate_writes_finished_witness:
  "example_receive_pickled_value [2, 5] = Inr (example_async_fn 2, [5]) \<and>
   example_async_fn 2 [5] = Inr (stubborn (Inr 5)) \<and>
   handle_coro (stubborn (Inr (5::nat))) [Wake False True] = None \<and>
   example_pickle_value (RemoteException (SystemExit [15])) = Inr [1] \<and>
   run_process example_pickle_value example_receive_pickled_value 9 [2, 5] [Wake False True]
     (Done (Inr 15)) =
   Some \<lparr>written = [(INITIALIZED, to_bytes_big 4 (9 :: 32 word)), (WAIT_EXEC_DATA, []),
                    (BOOTING, []), (STARTED, []), (EXECUTING, []), (STOPPING, []),
                    (FINISHED, [1])],
         ending = Exit 15\<rparr>"
  using terminate_writes_finished [where pickle_value = example_pickle_value
      and receive_pickled_value = example_receive_pickled_value
      and from_parent = "[2, 5]" and async_fn = "example_async_fn 2" and args = "[5]"
      and coro = "stubborn (Inr 5)" and wakes = "[Wake False True]" and signum = 15
      and payload = "[1]" and getpid = 9]
  by (simp add: example_defs handle_coro_def)

text \<open>
  C1 as stated (no \<open>FINISHED\<close> payload on a forced exit) fails: the task is pending,
  signal 15 arrives, and the stream ends with \<open>STOPPING\<close> and a \<open>FINISHED\<close> message.
\<close>

theorem terminate_finished_counterexample:
  "run_process example_pickle_value example_receive_pickled_value 77 [0, 1, 2] []
     (Done (Inr 15)) =
   Some \<lparr>written = [(INITIALIZED, to_bytes_big 4 (77 :: 32 word)), (WAIT_EXEC_DATA, []),
                    (BOOTING, []), (STARTED, []), (EXECUTING, []), (STOPPING, []),
                    (FINISHED, [1])],
         ending = Exit 15\<rparr>"
  by (simp add: run_defs handle_coro_Nil example_defs)

text \<open>
  C4, at the input where the code departs from it. The task has failed with
  \<open>Exception ''boom''\<close> and the terminate future is done with signal 15 when
  \<^verbatim>\<open>_do_async_fn\<close> is resumed. The terminate branch is taken, but the cleanup awaits the
  failed task and its exception is not a \<open>CancelledError\<close>: it leaves \<^verbatim>\<open>_do_async_fn\<close>
  in place of \<open>SystemExit\<close>, and the process exits with 1, not 15. (With a task that
  returned a value the branch does raise \<open>SystemExit\<close>: \<open>do_async_fn_SIGTERM_returned\<close>.)
\<close>

theorem terminate_with_failed_task:
  "do_async_fn (example_async_fn 1) [] [] [Wake True False] (Done (Inr 15)) =
     Some (Inl (Exception ''boom''), [(STARTED, []), (EXECUTING, [])]) \<and>
   run_process example_pickle_value example_receive_pickled_value 77 [1] [Wake True False]
     (Done (Inr 15)) =
     Some \<lparr>written = [(INITIALIZED, to_bytes_big 4 (77 :: 32 word)), (WAIT_EXEC_DATA, []),
                      (BOOTING, []), (STARTED, []), (EXECUTING, []), (STOPPING, []),
                      (FINISHED, [1])],
           ending = Exit 1\<rparr>"
  by (simp add: run_defs handle_coro_done example_defs)

subsection \<open>The worker's messages and exit status\<close>

text \<open>
  C2, as the code has it. Once the descriptor has been decoded, every exception that
  leaves \<^verbatim>\<open>_do_async_fn\<close> (raised while the task is created or run) is caught and
  wrapped in a \<open>RemoteException\<close>; when that can be pickled, the worker writes \<open>STOPPING\<close>
  and then \<open>FINISHED\<close> with the pickled \<open>RemoteException\<close>, and ends with the code its
  handler binds.
\<close>

theorem task_failure_reported:
  assumes "receive_pickled_value from_parent = Inr (async_fn, args)"
    and "do_async_fn async_fn args
           [(INITIALIZED, to_bytes_big 4 getpid), (WAIT_EXEC_DATA, []), (BOOTING, [])]
           wakes system_exit_signum = Some (Inl exc_value, to_parent)"
    and "pickle_value (RemoteException exc_value) = Inr payload"
  shows "run_process pickle_value receive_pickled_value getpid from_parent wakes
           system_exit_signum =
         Some \<lparr>written = [(INITIALIZED, to_bytes_big 4 getpid), (WAIT_EXEC_DATA, []),
                          (BOOTING, []), (STARTED, []), (EXECUTING, []), (STOPPING, []),
                          (FINISHED, payload)],
               ending = (case except_code exc_value of
                           None \<Rightarrow> Uncaught (Exception ''UnboundLocalError'')
                         | Some code \<Rightarrow> Exit code)\<rparr>"
proof -
  have "to_parent =
          [(INITIALIZED, to_bytes_big 4 getpid), (WAIT_EXEC_DATA, []), (BOOTING, [])] @
          [(STARTED, []), (EXECUTING, [])]"
    using assms(2) by (rule do_async_fn_written)
  with assms show ?thesis
    by (simp add: run_process_def try_run_def finally_finished_def written_defs
          split: option.split)
qed

theorem task_failure_reported_witness:
  "example_receive_pickled_value [1] = Inr (example_async_fn 1, []) \<and>
   do_async_fn (example_async_fn 1) []
     [(INITIALIZED, to_bytes_big 4 (9 :: 32 word)), (WAIT_EXEC_DATA, []), (BOOTING, [])]
     [Wake True False] Pending =
     Some (Inl (Exception ''boom''),
           [(INITIALIZED, to_bytes_big 4 (9 :: 32 word)), (WAIT_EXEC_DATA, []), (BOOTING, []),
            (STARTED, []), (EXECUTING, [])]) \<and>
   example_pickle_value (RemoteException (Exception ''boom'')) = Inr [1] \<and>
   run_process example_pickle_value example_receive_pickled_value 9 [1] [Wake True False]
     Pending =
   Some \<lparr>written = [(INITIALIZED, to_bytes_big 4 (9 :: 32 word)), (WAIT_EXEC_DATA, []),
                    (BOOTING, []), (STARTED, []), (EXECUTING, []), (STOPPING, []),
                    (FINISHED, [1])],
         ending = Exit 1\<rparr>"
  using task_failure_reported [where pickle_value = example_pickle_value
      and receive_pickled_value = example_receive_pickled_value
      and from_parent = "[1]" and async_fn = "example_async_fn 1" and args = "[]"
      and wakes = "[Wake True False]" and system_exit_signum = Pending
      and exc_value = "Exception ''boom''" and payload = "[1]" and getpid = 9
      and to_parent = "[(INITIALIZED, to_bytes_big 4 (9 :: 32 word)), (WAIT_EXEC_DATA, []),
            (BOOTING, []), (STARTED, []), (EXECUTING, [])]"]
  by (simp add: example_defs do_async_fn_def handle_coro_done update_state_def)

text \<open>
  C2 as stated (a failure decoding the descriptor is caught and reported) fails: the
  parent's stream is empty, reading the descriptor raises, and the worker ends on that
  exception after \<open>INITIALIZED\<close> and \<open>WAIT_EXEC_DATA\<close>, with neither \<open>STOPPING\<close> nor
  \<open>FINISHED\<close> written.
\<close>

theorem descriptor_failure_counterexample:
  "run_process example_pickle_value example_receive_pickled_value 77 [] [Wake True False]
     Pending =
   Some \<lparr>written = [(INITIALIZED, to_bytes_big 4 (77 :: 32 word)), (WAIT_EXEC_DATA, [])],
         ending = Uncaught (Exception ''EOFError'')\<rparr>"
  by (simp add: run_defs example_defs)

text \<open>
  C3, as the code has it. A task that returns \<open>v\<close> without error and receives no signal,
  with \<open>v\<close> a value the pickler accepts, makes the worker write exactly \<open>INITIALIZED\<close>,
  \<open>WAIT_EXEC_DATA\<close>, \<open>BOOTING\<close>, \<open>STARTED\<close>, \<open>EXECUTING\<close>, \<open>STOPPING\<close>, \<open>FINISHED\<close>, in this
  order, and exit with 0; the \<open>FINISHED\<close> payload is the pickled \<open>v\<close>, which any inverse
  of the pickler decodes to \<open>Result v\<close>.
\<close>

theorem normal_run_messages:
  assumes "receive_pickled_value from_parent = Inr (async_fn, args)"
    and "async_fn args = Inr coro"
    and "completion coro = Inr v"
    and "pickle_value (Result v) = Inr payload"
    and "\<And>x p. pickle_value (Result x) = Inr p \<Longrightarrow> unpickle p = Result x"
  shows "run_process pickle_value receive_pickled_value getpid from_parent
           (Wake True False # wakes) Pending =
         Some \<lparr>written = [(INITIALIZED, to_bytes_big 4 getpid), (WAIT_EXEC_DATA, []),
                          (BOOTING, []), (STARTED, []), (EXECUTING, []), (STOPPING, []),
                          (FINISHED, payload)],
               ending = Exit 0\<rparr> \<and>
         unpickle payload = Result v"
  using assms by (simp add: run_defs handle_coro_done)

theorem normal_run_messages_witness:
  "example_receive_pickled_value [0, 3, 4] = Inr (example_async_fn 0, [3, 4]) \<and>
   example_async_fn 0 [3, 4] = Inr (plain (Inr 7)) \<and>
   completion (plain (Inr 7 :: exn + nat)) = Inr 7 \<and>
   example_pickle_value (Result 7) = Inr [0, 7] \<and>
   run_process example_pickle_value example_receive_pickled_value 9 [0, 3, 4]
     [Wake True False] Pending =
   Some \<lparr>written = [(INITIALIZED, to_bytes_big 4 (9 :: 32 word)), (WAIT_EXEC_DATA, []),
                    (BOOTING, []), (STARTED, []), (EXECUTING, []), (STOPPING, []),
                    (FINISHED, [0, 7])],
         ending = Exit 0\<rparr> \<and>
   example_unpickle [0, 7] = Result 7"
  using normal_run_messages [where pickle_value = example_pickle_value
      and receive_pickled_value = example_receive_pickled_value
      and from_parent = "[0, 3, 4]" and async_fn = "example_async_fn 0" and args = "[3, 4]"
      and coro = "plain (Inr 7)" and v = 7 and payload = "[0, 7]" and getpid = 9
      and unpickle = example_unpickle and wakes = "[]", OF _ _ _ _ example_unpickle_pickle]
  by (simp add: example_defs)

text \<open>
  C3 as stated (every task that returns a value) fails: the task returns 300 without
  error and without signals, the pickler refuses it, and the stream ends with
  \<open>STOPPING\<close>: no \<open>FINISHED\<close> message is written.
\<close>

theorem unpicklable_result_messages_counterexample:
  "run_process example_pickle_value example_receive_pickled_value 77 [0, 200, 100]
     [Wake True False] Pending =
   Some \<lparr>written = [(INITIALIZED, to_bytes_big 4 (77 :: 32 word)), (WAIT_EXEC_DATA, []),
                    (BOOTING, []), (STARTED, []), (EXECUTING, []), (STOPPING, [])],
         ending = Uncaught (Exception ''UnboundLocalError'')\<rparr>"
  by (simp add: run_defs handle_coro_done example_defs)

text \<open>
  C7, as the code has it. Provided the object to report can be pickled, the exit status
  is 0 when the task returned a value, 1 when an exception other than
  \<open>KeyboardInterrupt\<close> and \<open>SystemExit\<close> came out, 2 when \<open>KeyboardInterrupt\<close> came out,
  and the number of the terminate signal when that signal arrived while the task was
  pending or had returned a value (the terminate branch then raises \<open>SystemExit\<close> with
  that number).
\<close>

theorem exit_status:
  "(pickle_value (Result v) = Inr payload_v \<longrightarrow>
      ending (try_run pickle_value to_parent (Inr v)) = Exit 0) \<and>
   (e \<noteq> KeyboardInterrupt \<and> (\<forall>args. e \<noteq> SystemExit args) \<and>
    pickle_value (RemoteException e) = Inr payload_e \<longrightarrow>
      ending (try_run pickle_value to_parent (Inl e)) = Exit 1) \<and>
   (pickle_value (RemoteException KeyboardInterrupt) = Inr payload_i \<longrightarrow>
      ending (try_run pickle_value to_parent (Inl KeyboardInterrupt)) = Exit 2) \<and>
   (async_fn args = Inr coro \<and>
    (handle_coro coro wakes = None \<or> handle_coro coro wakes = Some (Inr v', effects)) \<and>
    pickle_value (RemoteException (SystemExit [signum])) = Inr payload_t \<longrightarrow>
      (\<exists>returned to_parent'.
         do_async_fn async_fn args to_parent wakes (Done (Inr signum)) =
           Some (returned, to_parent') \<and>
         ending (try_run pickle_value to_parent' returned) = Exit signum))"
proof (intro conjI impI)
  assume "pickle_value (Result v) = Inr payload_v"
  then show "ending (try_run pickle_value to_parent (Inr v)) = Exit 0"
    by (simp add: try_run_def finally_finished_def)
next
  assume a: "e \<noteq> KeyboardInterrupt \<and> (\<forall>args. e \<noteq> SystemExit args) \<and>
    pickle_value (RemoteException e) = Inr payload_e"
  then have "except_code e = Some 1"
    by (cases e) simp_all
  with a show "ending (try_run pickle_value to_parent (Inl e)) = Exit 1"
    by (simp add: try_run_def finally_finished_def)
next
  assume "pickle_value (RemoteException KeyboardInterrupt) = Inr payload_i"
  then show "ending (try_run pickle_value to_parent (Inl KeyboardInterrupt)) = Exit 2"
    by (simp add: try_run_def finally_finished_def)
next
  assume "async_fn args = Inr coro \<and>
    (handle_coro coro wakes = None \<or> handle_coro coro wakes = Some (Inr v', effects)) \<and>
    pickle_value (RemoteException (SystemExit [signum])) = Inr payload_t"
  then show "\<exists>returned to_parent'.
         do_async_fn async_fn args to_parent wakes (Done (Inr signum)) =
           Some (returned, to_parent') \<and>
         ending (try_run pickle_value to_parent' returned) = Exit signum"
    by (auto simp: do_async_fn_def try_run_def finally_finished_def)
qed

theorem exit_status_witness:
  "ending (try_run example_pickle_value [] (Inr 7)) = Exit 0 \<and>
   ending (try_run example_pickle_value [] (Inl (Exception ''boom''))) = Exit 1 \<and>
   ending (try_run example_pickle_value [] (Inl KeyboardInterrupt)) = Exit 2 \<and>
   do_async_fn (example_async_fn 2) [5] [] [Wake False True] (Done (Inr 15)) =
     Some (Inl (SystemExit [15]), [(STARTED, []), (EXECUTING, [])]) \<and>
   ending (try_run example_pickle_value [(STARTED, []), (EXECUTING, [])]
             (Inl (SystemExit [15]))) = Exit 15"
  using exit_status [where pickle_value = example_pickle_value and v = 7
      and payload_v = "[0, 7]" and e = "Exception ''boom''" and payload_e = "[1]"
      and payload_i = "[1]" and payload_t = "[1]"
      and async_fn = "example_async_fn 2" and args = "[5]" and coro = "stubborn (Inr 5)"
      and wakes = "[Wake False True]" and signum = 15 and to_parent = "[]"]
  by (simp add: example_defs handle_coro_def do_async_fn_def update_state_def)

text \<open>
  C7 as stated (status 0 whenever the task returns a value) fails: the task returned
  300, which the pickler refuses, and the worker ends on an \<^verbatim>\<open>UnboundLocalError\<close>
  instead of \<^verbatim>\<open>sys.exit(0)\<close>.
\<close>

theorem exit_status_unpicklable_counterexample:
  "ending (try_run example_pickle_value [] (Inr 300)) =
     Uncaught (Exception ''UnboundLocalError'')"
  by (simp add: try_run_def finally_finished_def example_defs)

text \<open>
  C8. On every way a worker comes to its end, at most one \<open>FINISHED\<close> message has been
  written, and when one has been written a \<open>STOPPING\<close> message stands before it; once
  the descriptor has been decoded (the task returned, failed, was interrupted or was
  forced to exit) \<open>STOPPING\<close> has been written in every case.
\<close>

theorem stopping_before_finished:
  assumes "run_process pickle_value receive_pickled_value getpid from_parent wakes
             system_exit_signum = Some w"
  shows "length (filter (\<lambda>m. fst m = FINISHED) (written w)) \<le> 1 \<and>
         (FINISHED \<in> fst ` set (written w) \<longrightarrow>
            STOPPING \<in> fst ` set (takeWhile (\<lambda>m. fst m \<noteq> FINISHED) (written w))) \<and>
         ((\<exists>d. receive_pickled_value from_parent = Inr d) \<longrightarrow>
            STOPPING \<in> fst ` set (written w))"
  using run_process_written [OF assms] by auto

theorem stopping_before_finished_witness:
  "run_process example_pickle_value example_receive_pickled_value 9 [1] [Wake True True]
     Pending =
     Some \<lparr>written = [(INITIALIZED, to_bytes_big 4 (9 :: 32 word)), (WAIT_EXEC_DATA, []),
                      (BOOTING, []), (STARTED, []), (EXECUTING, []), (STOPPING, []),
                      (FINISHED, [1])],
           ending = Exit 1\<rparr> \<and>
   length (filter (\<lambda>m. fst m = FINISHED)
     [(INITIALIZED, to_bytes_big 4 (9 :: 32 word)), (WAIT_EXEC_DATA, []),
      (BOOTING, []), (STARTED, []), (EXECUTING, []), (STOPPING, []), (FINISHED, [1])]) \<le> 1 \<and>
   STOPPING \<in> fst ` set (takeWhile (\<lambda>m. fst m \<noteq> FINISHED)
     [(INITIALIZED, to_bytes_big 4 (9 :: 32 word)), (WAIT_EXEC_DATA, []),
      (BOOTING, []), (STARTED, []), (EXECUTING, []), (STOPPING, []), (FINISHED, [1])])"
  using stopping_before_finished [where pickle_value = example_pickle_value
      and receive_pickled_value = example_receive_pickled_value
      and getpid = 9 and from_parent = "[1]" and wakes = "[Wake True True]"
      and system_exit_signum = Pending
      and w = "\<lparr>written = [(INITIALIZED, to_bytes_big 4 (9 :: 32 word)), (WAIT_EXEC_DATA, []),
                      (BOOTING, []), (STARTED, []), (EXECUTING, []), (STOPPING, []),
                      (FINISHED, [1])],
           ending = Exit 1\<rparr>"]
  by (simp add: run_defs handle_coro_done example_defs)

text \<open>
  C10. When the task completes normally and pickling its result raises, the worker has
  written \<open>STOPPING\<close>, \<open>finished_payload\<close> is never bound, no \<open>FINISHED\<close> message is
  written, and the process does not exit with status 0: it ends on the
  \<^verbatim>\<open>UnboundLocalError\<close> raised in the \<^verbatim>\<open>finally\<close> clause.
\<close>

theorem unpicklable_result_no_finished:
  assumes "receive_pickled_value from_parent = Inr (async_fn, args)"
    and "do_async_fn async_fn args
           [(INITIALIZED, to_bytes_big 4 getpid), (WAIT_EXEC_DATA, []), (BOOTING, [])]
           wakes system_exit_signum = Some (Inr v, to_parent)"
    and "pickle_value (Result v) = Inl e"
  shows "run_process pickle_value receive_pickled_value getpid from_parent wakes
           system_exit_signum =
         Some \<lparr>written = [(INITIALIZED, to_bytes_big 4 getpid), (WAIT_EXEC_DATA, []),
                          (BOOTING, []), (STARTED, []), (EXECUTING, []), (STOPPING, [])],
               ending = Uncaught (Exception ''UnboundLocalError'')\<rparr>"
proof -
  have "to_parent =
          [(INITIALIZED, to_bytes_big 4 getpid), (WAIT_EXEC_DATA, []), (BOOTING, [])] @
          [(STARTED, []), (EXECUTING, [])]"
    using assms(2) by (rule do_async_fn_written)
  with assms show ?thesis
    by (simp add: run_process_def try_run_def finally_finished_def written_defs)
qed

theorem unpicklable_result_no_finished_witness:
  "example_receive_pickled_value [2, 255, 1] = Inr (example_async_fn 2, [255, 1]) \<and>
   do_async_fn (example_async_fn 2) [255, 1]
     [(INITIALIZED, to_bytes_big 4 (9 :: 32 word)), (WAIT_EXEC_DATA, []), (BOOTING, [])]
     [Wake False True, Wake True False] Pending =
     Some (Inr 256,
           [(INITIALIZED, to_bytes_big 4 (9 :: 32 word)), (WAIT_EXEC_DATA, []), (BOOTING, []),
            (STARTED, []), (EXECUTING, [])]) \<and>
   example_pickle_value (Result 256) = Inl (Exception ''PicklingError'') \<and>
   run_process example_pickle_value example_receive_pickled_value 9 [2, 255, 1]
     [Wake False True, Wake True False] Pending =
   Some \<lparr>written = [(INITIALIZED, to_bytes_big 4 (9 :: 32 word)), (WAIT_EXEC_DATA, []),
                    (BOOTING, []), (STARTED, []), (EXECUTING, []), (STOPPING, [])],
         ending = Uncaught (Exception ''UnboundLocalError'')\<rparr>"
  using unpicklable_result_no_finished [where pickle_value = example_pickle_value
      and receive_pickled_value = example_receive_pickled_value
      and from_parent = "[2, 255, 1]" and async_fn = "example_async_fn 2"
      and args = "[255, 1]" and wakes = "[Wake False True, Wake True False]"
      and system_exit_signum = Pending and v = 256 and getpid = 9
      and e = "Exception ''PicklingError''"
      and to_parent = "[(INITIALIZED, to_bytes_big 4 (9 :: 32 word)), (WAIT_EXEC_DATA, []),
            (BOOTING, []), (STARTED, []), (EXECUTING, [])]"]
  by (simp add: example_defs do_async_fn_def handle_coro_def update_state_def)

end
